theory Spec2Isabelle
  imports Main
begin

section \<open>Data model\<close>

text \<open>
  The server keeps no state of its own between requests. What persists lives in two
  external stores: the identity provider's per-user private metadata (only the field
  \<open>free_usage\<close> is ever read or written by the server) and the \<open>creations\<close> table of
  the relational store. Both are modelled explicitly and passed through every handler,
  together with the list of requests the server has sent to the generative and storage
  providers.
\<close>

datatype creation_type = Article | Blog_title | Image_type | Resume_review

record creation =
  creation_id :: nat
  user_id :: string
  prompt :: string
  content :: string
  kind :: creation_type
  publish :: bool
  likes :: "string list"

datatype call =
    Chat_completion string nat
  | Text_to_image string
  | Cloudinary_upload string

record world =
  metadata :: "string \<rightharpoonup> nat"
  creations :: "creation list"
  calls :: "call list"

text \<open>
  \<open>metadata w u\<close> is \<open>privateMetadata.free_usage\<close> of user \<open>u\<close>; \<open>None\<close> is the field
  being absent (\<open>undefined\<close> in the source).
\<close>

record upload_file =
  file_size :: nat
  file_path :: string

text \<open>
  The request object as the controllers read it: \<open>req.auth().userId\<close>, the two fields the
  \<open>auth\<close> middleware attaches (\<open>req.plan\<close>, \<open>req.free_usage\<close>), the fields of
  \<open>req.body\<close> and \<open>req.file\<close> (absent when nothing was uploaded).
\<close>

record request =
  userId :: string
  plan :: string
  free_usage :: nat
  body_prompt :: string
  body_length :: nat
  body_publish :: "bool option"
  body_object :: string
  body_id :: nat
  req_file :: "upload_file option"

text \<open>The JSON bodies the handlers send with \<open>res.json\<close>.\<close>

datatype response =
    Content string
  | Message string
  | Fail string
  | Fail_error string

fun success :: "response \<Rightarrow> bool" where
  "success (Content c) = True"
| "success (Message m) = True"
| "success (Fail m) = False"
| "success (Fail_error m) = False"

text \<open>
  Every call that leaves the process can throw. What each such call does during one
  request is an input of the model: \<open>Inl msg\<close> or \<open>Some msg\<close> is a throw whose
  \<open>error.message\<close> is \<open>msg\<close>.
\<close>

record env =
  hasPremiumPlan :: bool
  getUser_error :: "string option"
  reset_error :: "string option"
  completion :: "string + string list"
  text_to_image :: "string + string"
  upload :: "string + string \<times> string"
  base64 :: "string \<Rightarrow> string"
  cloudinary_url :: "string \<Rightarrow> string \<Rightarrow> string"
  readFileSync :: "string + string"
  pdf :: "string + string"
  insert_error :: "string option"
  commit_error :: "string option"
  select_error :: "string option"
  update_error :: "string option"

section \<open>The stores' operations\<close>

definition fresh_id :: "creation list \<Rightarrow> nat" where
  "fresh_id cs = Suc (fold max (map creation_id cs) 0)"

text \<open>
  Modelled from the spec: the schema of the \<open>creations\<close> table is not part of the
  sources; an insert assigns a fresh \<open>id\<close> and initialises \<open>likes\<close> to the empty set
  (section 4.4 of the specification).
\<close>

definition sql_insert ::
  "string \<Rightarrow> string \<Rightarrow> string \<Rightarrow> creation_type \<Rightarrow> bool \<Rightarrow> world \<Rightarrow> world" where
  "sql_insert uid p c t pub w =
     w\<lparr>creations := creations w @
        [\<lparr>creation_id = fresh_id (creations w), user_id = uid, prompt = p, content = c,
          kind = t, publish = pub, likes = []\<rparr>]\<rparr>"

definition updateUserMetadata :: "string \<Rightarrow> nat \<Rightarrow> world \<Rightarrow> world" where
  "updateUserMetadata uid n w = w\<lparr>metadata := (metadata w)(uid \<mapsto> n)\<rparr>"

definition send :: "call \<Rightarrow> world \<Rightarrow> world" where
  "send c w = w\<lparr>calls := calls w @ [c]\<rparr>"

section \<open>Messages\<close>

definition limit_reached :: string where
  "limit_reached = ''Free usage limit reached. Upgrade to premium for more requests.''"

definition premium_required :: string where
  "premium_required = ''This feature is only available for premium users.''"

definition size_exceeded :: string where
  "size_exceeded = ''Resume file size exceeds 5MB limit.''"

definition not_found :: string where
  "not_found = ''Creation not found''"

text \<open>
  \<open>response.choices[0].message.content\<close> on an empty \<open>choices\<close>, and \<open>req.file.size\<close> or
  \<open>req.file.path\<close> when no file was uploaded, throw a \<open>TypeError\<close>.
\<close>

definition type_error :: "string \<Rightarrow> string" where
  "type_error field =
     ''Cannot read properties of undefined (reading '' @ [CHR 0x27] @ field @ [CHR 0x27] @ '')''"

section \<open>Controllers of aiController.js\<close>

definition generateArticle :: "env \<Rightarrow> request \<Rightarrow> world \<Rightarrow> response \<times> world" where
  "generateArticle e req w =
     (if plan req \<noteq> ''premium'' \<and> free_usage req \<ge> 10 then (Fail limit_reached, w)
      else
        let w1 = send (Chat_completion (body_prompt req) (body_length req)) w in
        case completion e of
          Inl err \<Rightarrow> (Fail err, w1)
        | Inr choices \<Rightarrow>
            (case choices of
               [] \<Rightarrow> (Fail (type_error ''message''), w1)
             | txt # _ \<Rightarrow>
                 (case insert_error e of
                    Some err \<Rightarrow> (Fail err, w1)
                  | None \<Rightarrow>
                      let w2 = sql_insert (userId req) (body_prompt req) txt Article False w1 in
                      if plan req \<noteq> ''premium'' then
                        (case commit_error e of
                           Some err \<Rightarrow> (Fail err, w2)
                         | None \<Rightarrow>
                             (Content txt,
                              updateUserMetadata (userId req) (free_usage req + 1) w2))
                      else (Content txt, w2))))"

definition generateBlogTitle :: "env \<Rightarrow> request \<Rightarrow> world \<Rightarrow> response \<times> world" where
  "generateBlogTitle e req w =
     (if plan req \<noteq> ''premium'' \<and> free_usage req \<ge> 10 then (Fail limit_reached, w)
      else
        let w1 = send (Chat_completion (body_prompt req) 100) w in
        case completion e of
          Inl err \<Rightarrow> (Fail err, w1)
        | Inr choices \<Rightarrow>
            (case choices of
               [] \<Rightarrow> (Fail (type_error ''message''), w1)
             | txt # _ \<Rightarrow>
                 (case insert_error e of
                    Some err \<Rightarrow> (Fail err, w1)
                  | None \<Rightarrow>
                      let w2 = sql_insert (userId req) (body_prompt req) txt Blog_title False w1 in
                      if plan req \<noteq> ''premium'' then
                        (case commit_error e of
                           Some err \<Rightarrow> (Fail err, w2)
                         | None \<Rightarrow>
                             (Content txt,
                              updateUserMetadata (userId req) (free_usage req + 1) w2))
                      else (Content txt, w2))))"

definition generateImage :: "env \<Rightarrow> request \<Rightarrow> world \<Rightarrow> response \<times> world" where
  "generateImage e req w =
     (if plan req \<noteq> ''premium'' then (Fail premium_required, w)
      else
        let w1 = send (Text_to_image (body_prompt req)) w in
        case text_to_image e of
          Inl err \<Rightarrow> (Fail err, w1)
        | Inr data \<Rightarrow>
            let base64Image = ''data:image/png;base64,'' @ base64 e data;
                w2 = send (Cloudinary_upload base64Image) w1 in
            (case upload e of
               Inl err \<Rightarrow> (Fail err, w2)
             | Inr (secure_url, public_id) \<Rightarrow>
                 (case insert_error e of
                    Some err \<Rightarrow> (Fail err, w2)
                  | None \<Rightarrow>
                      (Content secure_url,
                       sql_insert (userId req) (body_prompt req) secure_url Image_type
                         (case body_publish req of None \<Rightarrow> False | Some b \<Rightarrow> b) w2))))"

definition removeImageBackground :: "env \<Rightarrow> request \<Rightarrow> world \<Rightarrow> response \<times> world" where
  "removeImageBackground e req w =
     (if plan req \<noteq> ''premium'' then (Fail premium_required, w)
      else
        case req_file req of
          None \<Rightarrow> (Fail (type_error ''path''), w)
        | Some img \<Rightarrow>
            let w1 = send (Cloudinary_upload (file_path img)) w in
            (case upload e of
               Inl err \<Rightarrow> (Fail err, w1)
             | Inr (secure_url, public_id) \<Rightarrow>
                 (case insert_error e of
                    Some err \<Rightarrow> (Fail err, w1)
                  | None \<Rightarrow>
                      (Content secure_url,
                       sql_insert (userId req) ''Remove background from image'' secure_url
                         Image_type False w1))))"

definition removeImageObject :: "env \<Rightarrow> request \<Rightarrow> world \<Rightarrow> response \<times> world" where
  "removeImageObject e req w =
     (if plan req \<noteq> ''premium'' then (Fail premium_required, w)
      else
        case req_file req of
          None \<Rightarrow> (Fail (type_error ''path''), w)
        | Some img \<Rightarrow>
            let w1 = send (Cloudinary_upload (file_path img)) w in
            (case upload e of
               Inl err \<Rightarrow> (Fail err, w1)
             | Inr (secure_url, public_id) \<Rightarrow>
                 let imageUrl = cloudinary_url e public_id (body_object req) in
                 (case insert_error e of
                    Some err \<Rightarrow> (Fail err, w1)
                  | None \<Rightarrow>
                      (Content imageUrl,
                       sql_insert (userId req) (''Removed '' @ body_object req @ '' from image'')
                         imageUrl Image_type False w1))))"

definition review_prompt :: "string \<Rightarrow> string" where
  "review_prompt txt =
     ''Review the following resume and provide super constructive and critical feedback on its strengths, weakness, and areas for improvement. Resume Content:''
     @ [CHR 0x0A, CHR 0x0A] @ txt"

definition resumeReview :: "env \<Rightarrow> request \<Rightarrow> world \<Rightarrow> response \<times> world" where
  "resumeReview e req w =
     (if plan req \<noteq> ''premium'' \<and> free_usage req \<ge> 10 then (Fail premium_required, w)
      else
        case req_file req of
          None \<Rightarrow> (Fail (type_error ''size''), w)
        | Some resume \<Rightarrow>
            if file_size resume > 5 * 1024 * 1024 then (Fail size_exceeded, w)
            else
              (case readFileSync e of
                 Inl err \<Rightarrow> (Fail err, w)
               | Inr databuffer \<Rightarrow>
                   (case pdf e of
                      Inl err \<Rightarrow> (Fail err, w)
                    | Inr pdfText \<Rightarrow>
                        let w1 = send (Chat_completion (review_prompt pdfText) 1000) w in
                        (case completion e of
                           Inl err \<Rightarrow> (Fail err, w1)
                         | Inr choices \<Rightarrow>
                             (case choices of
                                [] \<Rightarrow> (Fail (type_error ''message''), w1)
                              | txt # _ \<Rightarrow>
                                  (case insert_error e of
                                     Some err \<Rightarrow> (Fail err, w1)
                                   | None \<Rightarrow>
                                       let w2 = sql_insert (userId req)
                                                  ''Review the uploaded resume'' txt
                                                  Resume_review False w1 in
                                       if plan req \<noteq> ''premium'' then
                                         (case commit_error e of
                                            Some err \<Rightarrow> (Fail err, w2)
                                          | None \<Rightarrow>
                                              (Content txt,
                                               updateUserMetadata (userId req)
                                                 (free_usage req + 3) w2))
                                       else (Content txt, w2)))))))"

section \<open>The middleware of auth.js\<close>

text \<open>
  \<open>auth\<close> either answers the request itself (\<open>Inl\<close>, when a call to the identity
  provider throws) or attaches \<open>free_usage\<close> and \<open>plan\<close> to the request and calls
  \<open>next()\<close> (\<open>Inr\<close>). The \<open>else\<close> branch of its test is \<open>auth_reset\<close>.
\<close>

definition plan_of :: "env \<Rightarrow> string" where
  "plan_of e = (if hasPremiumPlan e then ''premium'' else ''free'')"

definition auth_reset :: "env \<Rightarrow> request \<Rightarrow> world \<Rightarrow> (response + request) \<times> world" where
  "auth_reset e req w =
     (case reset_error e of
        Some err \<Rightarrow> (Inl (Fail_error err), w)
      | None \<Rightarrow>
          (Inr (req\<lparr>free_usage := 0, plan := plan_of e\<rparr>),
           updateUserMetadata (userId req) 0 w))"

definition auth :: "env \<Rightarrow> request \<Rightarrow> world \<Rightarrow> (response + request) \<times> world" where
  "auth e req w =
     (case getUser_error e of
        Some err \<Rightarrow> (Inl (Fail_error err), w)
      | None \<Rightarrow>
          (case metadata w (userId req) of
             None \<Rightarrow> auth_reset e req w
           | Some n \<Rightarrow>
               if \<not> hasPremiumPlan e \<and> n \<noteq> 0
               then (Inr (req\<lparr>free_usage := n, plan := plan_of e\<rparr>), w)
               else auth_reset e req w))"

text \<open>A route \<open>router.post(path, auth, handler)\<close>.\<close>

definition route ::
  "(env \<Rightarrow> request \<Rightarrow> world \<Rightarrow> response \<times> world) \<Rightarrow>
   env \<Rightarrow> request \<Rightarrow> world \<Rightarrow> response \<times> world" where
  "route handler e req w =
     (case auth e req w of
        (Inl r, w') \<Rightarrow> (r, w')
      | (Inr req', w') \<Rightarrow> handler e req' w')"

text \<open>
  A client sending one request after another to the same route, each with its own
  outcomes of the external calls; the responses come back in order.
\<close>

fun serve ::
  "(env \<Rightarrow> request \<Rightarrow> world \<Rightarrow> response \<times> world) \<Rightarrow>
   request \<Rightarrow> env list \<Rightarrow> world \<Rightarrow> response list \<times> world" where
  "serve h req [] w = ([], w)"
| "serve h req (e # es) w =
     (case h e req w of
        (r, w') \<Rightarrow> (case serve h req es w' of (rs, w'') \<Rightarrow> (r # rs, w'')))"

section \<open>The like toggle of userController.js\<close>

text \<open>\<open>Array.prototype.join\<close> with a one-character separator.\<close>

fun join :: "char \<Rightarrow> string list \<Rightarrow> string" where
  "join sep [] = []"
| "join sep [x] = x"
| "join sep (x # y # ys) = x @ sep # join sep (y # ys)"

text \<open>
  The store reads the value \<open>{a,b,c}::text[]\<close> back as an array. For items that need no
  quoting (see \<open>plain\<close> below) the array input of the store strips the braces and cuts
  at the commas; \<open>{}\<close> is the empty array.
\<close>

fun split_on :: "char \<Rightarrow> string \<Rightarrow> string list" where
  "split_on sep [] = [] # []"
| "split_on sep (c # cs) =
     (if c = sep then [] # split_on sep cs
      else (case split_on sep cs of
              [] \<Rightarrow> [c] # []
            | x # xs \<Rightarrow> (c # x) # xs))"

definition text_array_in :: "string \<Rightarrow> string list" where
  "text_array_in s =
     (let body = butlast (tl s) in if body = [] then [] else split_on CHR '','' body)"

definition is_null_word :: "string \<Rightarrow> bool" where
  "is_null_word s =
     (case s of
        [a, b, c, d] \<Rightarrow>
          a \<in> set ''nN'' \<and> b \<in> set ''uU'' \<and> c \<in> set ''lL'' \<and> d \<in> set ''lL''
      | _ \<Rightarrow> False)"

text \<open>
  An item that the array input reads back as it was written: not empty, not the word
  NULL, and free of the characters that delimit, quote or pad items. The identifiers
  the identity provider issues are of this kind.
\<close>

definition plain :: "string \<Rightarrow> bool" where
  "plain s =
     (s \<noteq> [] \<and> \<not> is_null_word s
      \<and> set s \<inter> set [CHR '','', CHR ''{'', CHR ''}'', CHR 0x22, CHR 0x5C, CHR '' '',
                       CHR 0x09, CHR 0x0A, CHR 0x0B, CHR 0x0C, CHR 0x0D] = {})"

definition sql_select :: "nat \<Rightarrow> world \<Rightarrow> creation list" where
  "sql_select i w = filter (\<lambda>c. creation_id c = i) (creations w)"

definition sql_update_likes :: "string \<Rightarrow> nat \<Rightarrow> world \<Rightarrow> world" where
  "sql_update_likes formattedArray i w =
     w\<lparr>creations :=
         map (\<lambda>c. if creation_id c = i then c\<lparr>likes := text_array_in formattedArray\<rparr> else c)
           (creations w)\<rparr>"

definition toggleLikeCreation :: "env \<Rightarrow> request \<Rightarrow> world \<Rightarrow> response \<times> world" where
  "toggleLikeCreation e req w =
     (case select_error e of
        Some err \<Rightarrow> (Fail err, w)
      | None \<Rightarrow>
          (case sql_select (body_id req) w of
             [] \<Rightarrow> (Fail not_found, w)
           | creation # _ \<Rightarrow>
               let currentLikes = likes creation;
                   userIdStr = userId req;
                   (updatedLikes, message) =
                     (if userIdStr \<in> set currentLikes
                      then (filter (\<lambda>user. user \<noteq> userIdStr) currentLikes,
                            ''Creation disliked'')
                      else (currentLikes @ [userIdStr], ''Creation liked''));
                   formattedArray = ''{'' @ join CHR '','' updatedLikes @ ''}''
               in (case update_error e of
                     Some err \<Rightarrow> (Fail err, w)
                   | None \<Rightarrow>
                       (Message message, sql_update_likes formattedArray (body_id req) w))))"

text \<open>The \<open>likes\<close> of the row a \<open>SELECT\<close> by id returns first.\<close>

definition likes_of :: "nat \<Rightarrow> world \<Rightarrow> string list option" where
  "likes_of i w = (case sql_select i w of [] \<Rightarrow> None | c # _ \<Rightarrow> Some (likes c))"

section \<open>Notions used in the statements\<close>

text \<open>The value of \<open>updatedLikes\<close> in \<open>toggleLikeCreation\<close>.\<close>

definition updated_likes :: "string \<Rightarrow> string list \<Rightarrow> string list" where
  "updated_likes u L = (if u \<in> set L then filter (\<lambda>user. user \<noteq> u) L else L @ [u])"

text \<open>The counter as \<open>auth\<close> resolves it: an absent field counts as zero.\<close>

definition counter :: "world \<Rightarrow> string \<Rightarrow> nat" where
  "counter w u = (case metadata w u of None \<Rightarrow> 0 | Some n \<Rightarrow> n)"

text \<open>
  A request during which no external call of a text generation throws and the provider
  returns at least one choice.
\<close>

definition succeeds :: "env \<Rightarrow> bool" where
  "succeeds e =
     (getUser_error e = None \<and> reset_error e = None
      \<and> (case completion e of Inl err \<Rightarrow> False | Inr choices \<Rightarrow> choices \<noteq> [])
      \<and> insert_error e = None \<and> commit_error e = None)"

text \<open>The two capabilities that are metered at one unit per generation.\<close>

definition metered :: "(env \<Rightarrow> request \<Rightarrow> world \<Rightarrow> response \<times> world) \<Rightarrow> bool" where
  "metered h = (h = generateArticle \<or> h = generateBlogTitle)"

text \<open>
  An outcome that reports failure and has neither appended a creation nor written
  the identity provider's metadata.
\<close>

definition failed_clean :: "response \<times> world \<Rightarrow> world \<Rightarrow> bool" where
  "failed_clean rw w =
     (\<not> success (fst rw) \<and> creations (snd rw) = creations w \<and> metadata (snd rw) = metadata w)"

section \<open>Concrete requests\<close>

definition env0 :: env where
  "env0 =
     \<lparr>hasPremiumPlan = False, getUser_error = None, reset_error = None,
      completion = Inr [''Hello there''], text_to_image = Inr ''png-bytes'',
      upload = Inr (''https://res.example/img.png'', ''img''),
      base64 = (\<lambda>d. d), cloudinary_url = (\<lambda>p ob. p @ ''/'' @ ob),
      readFileSync = Inr ''pdf-bytes'', pdf = Inr ''resume text'',
      insert_error = None, commit_error = None, select_error = None, update_error = None\<rparr>"

definition req0 :: request where
  "req0 =
     \<lparr>userId = ''user_1'', plan = ''free'', free_usage = 0, body_prompt = ''Hi'',
      body_length = 800, body_publish = None, body_object = ''car'', body_id = 1,
      req_file = None\<rparr>"

definition world0 :: world where
  "world0 = \<lparr>metadata = Map.empty, creations = [], calls = []\<rparr>"

definition world1 :: world where
  "world1 =
     \<lparr>metadata = [''user_1'' \<mapsto> 5],
      creations =
        [\<lparr>creation_id = 1, user_id = ''user_2'', prompt = ''Hi'', content = ''Hello there'',
          kind = Article, publish = True, likes = [''user_2'']\<rparr>],
      calls = []\<rparr>"

section \<open>Basic facts\<close>

lemma send_frame [simp]:
  "metadata (send c w) = metadata w"
  "creations (send c w) = creations w"
  "calls (send c w) = calls w @ [c]"
  by (simp_all add: send_def)

lemma sql_insert_frame [simp]:
  "metadata (sql_insert uid p c t pub w) = metadata w"
  "calls (sql_insert uid p c t pub w) = calls w"
  by (simp_all add: sql_insert_def)

lemma updateUserMetadata_frame [simp]:
  "creations (updateUserMetadata uid n w) = creations w"
  "calls (updateUserMetadata uid n w) = calls w"
  "metadata (updateUserMetadata uid n w) = (metadata w)(uid \<mapsto> n)"
  by (simp_all add: updateUserMetadata_def)

lemma generateArticle_calls:
  "calls (snd (generateArticle e req w)) =
     (if plan req \<noteq> ''premium'' \<and> free_usage req \<ge> 10 then calls w
      else calls w @ [Chat_completion (body_prompt req) (body_length req)])"
  by (simp add: generateArticle_def Let_def split: sum.splits list.splits option.splits)

lemma generateBlogTitle_calls:
  "calls (snd (generateBlogTitle e req w)) =
     (if plan req \<noteq> ''premium'' \<and> free_usage req \<ge> 10 then calls w
      else calls w @ [Chat_completion (body_prompt req) 100])"
  by (simp add: generateBlogTitle_def Let_def split: sum.splits list.splits option.splits)

section \<open>The quota gate of the metered text capabilities\<close>

text \<open>
  C1. In \<open>generateArticle\<close> and \<open>generateBlogTitle\<close> the request passes the quota check,
  that is, the completion request is sent to the provider, if and only if the plan is
  premium or \<open>free_usage < 10\<close>. When the check denies, the response is the failure
  carrying the limit-reached message and nothing has changed. A premium request passes
  whatever \<open>free_usage\<close> holds.
\<close>

theorem quota_gate_metered:
  "(calls (snd (generateArticle e req w)) \<noteq> calls w) =
      (plan req = ''premium'' \<or> free_usage req < 10)
   \<and> (calls (snd (generateBlogTitle e req w)) \<noteq> calls w) =
      (plan req = ''premium'' \<or> free_usage req < 10)
   \<and> (\<not> (plan req = ''premium'' \<or> free_usage req < 10) \<longrightarrow>
        generateArticle e req w = (Fail limit_reached, w)
        \<and> generateBlogTitle e req w = (Fail limit_reached, w))
   \<and> (plan req = ''premium'' \<longrightarrow>
        calls (snd (generateArticle e req w)) \<noteq> calls w
        \<and> calls (snd (generateBlogTitle e req w)) \<noteq> calls w)"
proof -
  have a: "(calls (snd (generateArticle e req w)) \<noteq> calls w) =
      (plan req = ''premium'' \<or> free_usage req < 10)"
    by (auto simp add: generateArticle_calls)
  have b: "(calls (snd (generateBlogTitle e req w)) \<noteq> calls w) =
      (plan req = ''premium'' \<or> free_usage req < 10)"
    by (auto simp add: generateBlogTitle_calls)
  have c: "\<not> (plan req = ''premium'' \<or> free_usage req < 10) \<Longrightarrow>
      generateArticle e req w = (Fail limit_reached, w)
      \<and> generateBlogTitle e req w = (Fail limit_reached, w)"
    by (simp add: generateArticle_def generateBlogTitle_def)
  from a b c show ?thesis by blast
qed

theorem quota_gate_metered_witness:
  "generateArticle env0 (req0\<lparr>free_usage := 10\<rparr>) world0 = (Fail limit_reached, world0)
   \<and> generateBlogTitle env0 (req0\<lparr>free_usage := 10\<rparr>) world0 = (Fail limit_reached, world0)
   \<and> calls (snd (generateArticle env0 (req0\<lparr>plan := ''premium'', free_usage := 25\<rparr>) world0))
        \<noteq> calls world0
   \<and> calls (snd (generateBlogTitle env0 (req0\<lparr>plan := ''premium'', free_usage := 25\<rparr>) world0))
        \<noteq> calls world0"
  using quota_gate_metered [of env0 "req0\<lparr>free_usage := 10\<rparr>" world0]
    quota_gate_metered [of env0 "req0\<lparr>plan := ''premium'', free_usage := 25\<rparr>" world0]
  by (simp add: req0_def)

section \<open>The identity snapshot of a premium user\<close>

text \<open>
  C2 (as stated). The claim says that resolving the snapshot of a premium user never
  writes the counter. It does: a premium user whose stored counter is 5 has it
  overwritten with 0 by \<open>auth\<close>.
\<close>

theorem auth_premium_counterexample:
  "hasPremiumPlan (env0\<lparr>hasPremiumPlan := True\<rparr>)
   \<and> metadata world1 ''user_1'' = Some 5
   \<and> metadata (snd (auth (env0\<lparr>hasPremiumPlan := True\<rparr>) req0 world1)) ''user_1'' = Some 0"
  by (simp add: auth_def auth_reset_def env0_def req0_def world1_def)

text \<open>
  Every request falls under one of six cases, told apart by the plan, the stored
  counter and the outcome of the two calls to the identity provider.
\<close>

lemma auth_cases_cover:
  "(hasPremiumPlan e \<and> getUser_error e = None \<and> reset_error e = None)
   \<or> (\<exists>n. \<not> hasPremiumPlan e \<and> getUser_error e = None
            \<and> metadata w u = Some n \<and> n \<noteq> 0)
   \<or> (\<not> hasPremiumPlan e \<and> getUser_error e = None \<and> reset_error e = None
        \<and> counter w u = 0)
   \<or> (\<exists>err. getUser_error e = Some err)
   \<or> (\<exists>err. hasPremiumPlan e \<and> getUser_error e = None \<and> reset_error e = Some err)
   \<or> (\<exists>err. \<not> hasPremiumPlan e \<and> getUser_error e = None \<and> reset_error e = Some err
            \<and> counter w u = 0)"
  by (cases "getUser_error e"; cases "reset_error e"; cases "metadata w u";
      auto simp: counter_def)

text \<open>
  C2 (amended). When the calls to the identity provider succeed, \<open>auth\<close> on a premium
  request writes \<open>free_usage = 0\<close> for the user, whatever the store held, and passes
  the request on with \<open>free_usage = 0\<close> and plan premium. The only requests it passes
  on without writing are those of a non-premium user whose stored counter is not zero:
  they carry the stored counter and plan free. A non-premium user whose counter is
  absent or zero gets the same write of 0 as a premium user. When a call to the
  provider throws (the lookup of the user, or the write of 0 for a premium user or for
  a non-premium user whose counter is absent or zero), nothing is written and the
  request is answered with the error instead of being passed on. These six cases
  are all there are.
\<close>

theorem auth_premium_resets:
  "(hasPremiumPlan e \<and> getUser_error e = None \<and> reset_error e = None \<longrightarrow>
      auth e req w =
        (Inr (req\<lparr>free_usage := 0, plan := ''premium''\<rparr>),
         w\<lparr>metadata := (metadata w)(userId req \<mapsto> 0)\<rparr>))
   \<and> (\<not> hasPremiumPlan e \<and> getUser_error e = None
        \<and> metadata w (userId req) = Some n \<and> n \<noteq> 0 \<longrightarrow>
      auth e req w = (Inr (req\<lparr>free_usage := n, plan := ''free''\<rparr>), w))
   \<and> (\<not> hasPremiumPlan e \<and> getUser_error e = None \<and> reset_error e = None
        \<and> counter w (userId req) = 0 \<longrightarrow>
      auth e req w =
        (Inr (req\<lparr>free_usage := 0, plan := ''free''\<rparr>),
         w\<lparr>metadata := (metadata w)(userId req \<mapsto> 0)\<rparr>))
   \<and> (getUser_error e = Some err \<longrightarrow> auth e req w = (Inl (Fail_error err), w))
   \<and> (hasPremiumPlan e \<and> getUser_error e = None \<and> reset_error e = Some err \<longrightarrow>
      auth e req w = (Inl (Fail_error err), w))
   \<and> (\<not> hasPremiumPlan e \<and> getUser_error e = None \<and> reset_error e = Some err
        \<and> counter w (userId req) = 0 \<longrightarrow>
      auth e req w = (Inl (Fail_error err), w))"
  by (simp add: auth_def auth_reset_def plan_of_def updateUserMetadata_def counter_def
      split: option.splits)

theorem auth_premium_resets_witness:
  "auth (env0\<lparr>hasPremiumPlan := True\<rparr>) req0 world1 =
     (Inr (req0\<lparr>free_usage := 0, plan := ''premium''\<rparr>),
      world1\<lparr>metadata := (metadata world1)(''user_1'' \<mapsto> 0)\<rparr>)
   \<and> auth env0 req0 world1 = (Inr (req0\<lparr>free_usage := 5, plan := ''free''\<rparr>), world1)
   \<and> auth env0 req0 world0 =
     (Inr (req0\<lparr>free_usage := 0, plan := ''free''\<rparr>),
      world0\<lparr>metadata := (metadata world0)(''user_1'' \<mapsto> 0)\<rparr>)
   \<and> auth (env0\<lparr>getUser_error := Some ''503''\<rparr>) req0 world1 = (Inl (Fail_error ''503''), world1)
   \<and> auth (env0\<lparr>hasPremiumPlan := True, reset_error := Some ''503''\<rparr>) req0 world1
       = (Inl (Fail_error ''503''), world1)
   \<and> auth (env0\<lparr>reset_error := Some ''503''\<rparr>) req0 world0
       = (Inl (Fail_error ''503''), world0)"
  using auth_premium_resets [of "env0\<lparr>hasPremiumPlan := True\<rparr>" req0 world1 5 "''503''"]
    auth_premium_resets [of env0 req0 world1 5 "''503''"]
    auth_premium_resets [of env0 req0 world0 5 "''503''"]
    auth_premium_resets [of "env0\<lparr>getUser_error := Some ''503''\<rparr>" req0 world1 5 "''503''"]
    auth_premium_resets
      [of "env0\<lparr>hasPremiumPlan := True, reset_error := Some ''503''\<rparr>" req0 world1 5 "''503''"]
    auth_premium_resets [of "env0\<lparr>reset_error := Some ''503''\<rparr>" req0 world0 5 "''503''"]
  by (simp add: env0_def req0_def world1_def world0_def counter_def)

section \<open>Ten free generations\<close>

lemma auth_free:
  assumes "getUser_error e = None" "reset_error e = None" "\<not> hasPremiumPlan e"
  shows "\<exists>w'. auth e req w =
            (Inr (req\<lparr>free_usage := counter w (userId req), plan := ''free''\<rparr>), w')"
  using assms
  by (auto simp: auth_def auth_reset_def plan_of_def counter_def split: option.splits)

lemma article_step:
  assumes "succeeds e" "plan req = ''free''" "free_usage req < 10"
  shows "success (fst (generateArticle e req w))
     \<and> metadata (snd (generateArticle e req w)) (userId req) = Some (free_usage req + 1)"
  using assms
  by (auto simp: generateArticle_def succeeds_def Let_def split: sum.splits list.splits)

lemma blog_step:
  assumes "succeeds e" "plan req = ''free''" "free_usage req < 10"
  shows "success (fst (generateBlogTitle e req w))
     \<and> metadata (snd (generateBlogTitle e req w)) (userId req) = Some (free_usage req + 1)"
  using assms
  by (auto simp: generateBlogTitle_def succeeds_def Let_def split: sum.splits list.splits)

lemma route_step:
  assumes "metered h" "succeeds e" "\<not> hasPremiumPlan e" "counter w (userId req) < 10"
  shows "success (fst (route h e req w))
     \<and> metadata (snd (route h e req w)) (userId req) = Some (counter w (userId req) + 1)"
proof -
  from assms(2) have g: "getUser_error e = None" "reset_error e = None"
    by (simp_all add: succeeds_def)
  let ?req = "req\<lparr>free_usage := counter w (userId req), plan := ''free''\<rparr>"
  from auth_free[OF g assms(3), of req w] obtain w' where
    a: "auth e req w = (Inr ?req, w')"
    by blast
  have p: "plan ?req = ''free''" "free_usage ?req < 10"
    using assms(4) by simp_all
  show ?thesis
    using assms(1) article_step[OF assms(2) p, of w'] blog_step[OF assms(2) p, of w'] a
    by (auto simp: route_def metered_def)
qed

lemma route_limit:
  assumes "metered h" "getUser_error e = None" "\<not> hasPremiumPlan e"
    and "metadata w (userId req) = Some n" "n \<ge> 10"
  shows "route h e req w = (Fail limit_reached, w)"
  using assms
  by (auto simp: route_def metered_def auth_def plan_of_def generateArticle_def
      generateBlogTitle_def)

lemma serve_steps:
  assumes "metered h" "\<forall>e\<in>set es. succeeds e \<and> \<not> hasPremiumPlan e"
    and "counter w (userId req) + length es \<le> 10"
  shows "list_all success (fst (serve (route h) req es w))
     \<and> counter (snd (serve (route h) req es w)) (userId req)
         = counter w (userId req) + length es
     \<and> (es \<noteq> [] \<longrightarrow> metadata (snd (serve (route h) req es w)) (userId req)
         = Some (counter w (userId req) + length es))"
  using assms(2,3)
proof (induction es arbitrary: w)
  case Nil
  then show ?case by simp
next
  case (Cons e es)
  obtain r w' where rw: "route h e req w = (r, w')" by (cases "route h e req w")
  from Cons.prems have e: "succeeds e" "\<not> hasPremiumPlan e" "counter w (userId req) < 10"
    by simp_all
  from route_step[OF assms(1) e] rw
  have st: "success r" "metadata w' (userId req) = Some (counter w (userId req) + 1)"
    by simp_all
  then have c: "counter w' (userId req) = counter w (userId req) + 1"
    by (simp add: counter_def)
  have "counter w' (userId req) + length es \<le> 10"
    using Cons.prems c by simp
  with Cons.IH[of w'] Cons.prems
  have ih: "list_all success (fst (serve (route h) req es w'))"
    "counter (snd (serve (route h) req es w')) (userId req) = counter w' (userId req) + length es"
    "es \<noteq> [] \<longrightarrow> metadata (snd (serve (route h) req es w')) (userId req)
         = Some (counter w' (userId req) + length es)"
    by simp_all
  show ?case
    using rw st c ih by (cases es) (auto split: prod.splits)
qed

lemma env0_succeeds: "succeeds env0 \<and> \<not> hasPremiumPlan env0"
  by (simp add: succeeds_def env0_def)

lemma counter_world0: "counter world0 (userId req0) = 0"
  by (simp add: counter_def world0_def)

text \<open>
  C3 (as stated). The claim has the tenth request denied. Starting from a fresh user,
  the first nine article generations succeed and leave the counter at 9; the tenth
  request is then served as well: its response reports success and the counter
  becomes 10.
\<close>

theorem tenth_request_counterexample:
  "list_all success (fst (serve (route generateArticle) req0 (replicate 9 env0) world0))
   \<and> metadata (snd (serve (route generateArticle) req0 (replicate 9 env0) world0)) ''user_1''
       = Some 9
   \<and> fst (route generateArticle env0 req0
            (snd (serve (route generateArticle) req0 (replicate 9 env0) world0)))
       \<noteq> Fail limit_reached
   \<and> success (fst (route generateArticle env0 req0
            (snd (serve (route generateArticle) req0 (replicate 9 env0) world0))))"
proof -
  let ?w9 = "snd (serve (route generateArticle) req0 (replicate 9 env0) world0)"
  have m: "metered generateArticle" by (simp add: metered_def)
  have nine: "list_all success (fst (serve (route generateArticle) req0 (replicate 9 env0) world0))"
    "metadata ?w9 (userId req0) = Some 9"
    using serve_steps[OF m, of "replicate 9 env0" world0 req0] env0_succeeds counter_world0
    by simp_all
  then have c9: "counter ?w9 (userId req0) < 10"
    by (simp add: counter_def)
  have ten: "success (fst (route generateArticle env0 req0 ?w9))"
    using route_step[OF m _ _ c9, of env0] env0_succeeds by simp
  then have "fst (route generateArticle env0 req0 ?w9) \<noteq> Fail limit_reached"
    by auto
  with nine ten show ?thesis by (simp add: req0_def)
qed

text \<open>
  C3 (amended). For a non-premium user whose counter starts at 0 (absent or stored as
  0), ten successive one-unit generations (article or blog title) whose external calls
  all succeed are all served; after the k-th of them the stored counter is k. The
  eleventh request is denied with the limit-reached message and changes nothing.
\<close>

theorem ten_generations_then_limit:
  assumes "metered h" "length es = 10"
    and "\<forall>e\<in>set es. succeeds e \<and> \<not> hasPremiumPlan e"
    and "counter w (userId req) = 0"
    and "getUser_error e' = None" "\<not> hasPremiumPlan e'"
  shows "list_all success (fst (serve (route h) req es w))
     \<and> (\<forall>k. 1 \<le> k \<and> k \<le> 10 \<longrightarrow>
           metadata (snd (serve (route h) req (take k es) w)) (userId req) = Some k)
     \<and> route h e' req (snd (serve (route h) req es w))
         = (Fail limit_reached, snd (serve (route h) req es w))"
proof -
  have all: "list_all success (fst (serve (route h) req es w))"
    using serve_steps[OF assms(1,3), of w req] assms(2,4) by simp
  have each: "metadata (snd (serve (route h) req (take k es) w)) (userId req) = Some k"
    if k: "1 \<le> k" "k \<le> 10" for k
  proof -
    have s: "\<forall>e\<in>set (take k es). succeeds e \<and> \<not> hasPremiumPlan e"
      using assms(3) by (meson in_set_takeD)
    have l: "length (take k es) = k" "take k es \<noteq> []"
      using k assms(2) by auto
    show ?thesis
      using serve_steps[OF assms(1) s, of w req] l k assms(4) by simp
  qed
  have "metadata (snd (serve (route h) req es w)) (userId req) = Some 10"
    using each[of 10] assms(2) by simp
  then have last: "route h e' req (snd (serve (route h) req es w))
         = (Fail limit_reached, snd (serve (route h) req es w))"
    using route_limit[OF assms(1,5,6)] by simp
  from all each last show ?thesis by blast
qed

theorem ten_generations_then_limit_witness:
  "list_all success (fst (serve (route generateArticle) req0 (replicate 10 env0) world0))
   \<and> metadata (snd (serve (route generateArticle) req0 (take 3 (replicate 10 env0)) world0))
       ''user_1'' = Some 3
   \<and> route generateArticle env0 req0
        (snd (serve (route generateArticle) req0 (replicate 10 env0) world0))
       = (Fail limit_reached,
          snd (serve (route generateArticle) req0 (replicate 10 env0) world0))"
proof -
  have m: "metered generateArticle" by (simp add: metered_def)
  have l: "length (replicate 10 env0) = 10" by simp
  have s: "\<forall>e\<in>set (replicate 10 env0). succeeds e \<and> \<not> hasPremiumPlan e"
    using env0_succeeds by simp
  have g: "getUser_error env0 = None" "\<not> hasPremiumPlan env0"
    by (simp_all add: env0_def)
  have u: "userId req0 = ''user_1''" by (simp add: req0_def)
  from ten_generations_then_limit [OF m l s counter_world0 g]
  show ?thesis unfolding u by auto
qed

section \<open>The reason given on a denial\<close>

text \<open>
  C4. A denial should tell the limit-reached case from the premium-required case.
  \<open>resumeReview\<close> does not: a non-premium request at \<open>free_usage = 10\<close> is denied by
  the same test as in \<open>generateArticle\<close>, which answers with the limit-reached
  message, but \<open>resumeReview\<close> answers with the premium-required message.
\<close>

theorem resumeReview_limit_message:
  "resumeReview env0 (req0\<lparr>free_usage := 10\<rparr>) world0 = (Fail premium_required, world0)
   \<and> generateArticle env0 (req0\<lparr>free_usage := 10\<rparr>) world0 = (Fail limit_reached, world0)
   \<and> premium_required \<noteq> limit_reached"
  by (simp add: resumeReview_def generateArticle_def req0_def premium_required_def
      limit_reached_def)

section \<open>Premium-only capabilities\<close>

text \<open>
  C5. Image generation, background removal and object removal answer every request
  whose plan is not premium with the premium-required message, whatever \<open>free_usage\<close>
  holds, and leave the world as it was: no request to a provider, no creation
  appended, no metadata written.
\<close>

theorem premium_only_denied:
  assumes "plan req \<noteq> ''premium''"
  shows "generateImage e req w = (Fail premium_required, w)
     \<and> removeImageBackground e req w = (Fail premium_required, w)
     \<and> removeImageObject e req w = (Fail premium_required, w)"
  using assms
  by (simp add: generateImage_def removeImageBackground_def removeImageObject_def)

theorem premium_only_denied_witness:
  "generateImage env0 (req0\<lparr>free_usage := 3\<rparr>) world1 = (Fail premium_required, world1)
   \<and> removeImageBackground env0 (req0\<lparr>free_usage := 3\<rparr>) world1
       = (Fail premium_required, world1)
   \<and> removeImageObject env0 (req0\<lparr>free_usage := 3\<rparr>) world1 = (Fail premium_required, world1)"
  using premium_only_denied [of "req0\<lparr>free_usage := 3\<rparr>" env0 world1]
  by (simp add: req0_def)

section \<open>A failing provider\<close>

text \<open>
  C6. When the call to the generative provider throws, the handler reports failure, no
  creation has been appended and the metadata is as before. This holds for the three
  text capabilities when the completion call throws, for image generation when the
  text-to-image call throws, and for the three image capabilities when the upload
  throws. For an article or a blog title that passed the quota check, the response
  carries the provider's error message.
\<close>

theorem provider_failure_no_effects:
  "(completion e = Inl err \<longrightarrow>
      failed_clean (generateArticle e req w) w
      \<and> failed_clean (generateBlogTitle e req w) w
      \<and> failed_clean (resumeReview e req w) w
      \<and> (\<not> (plan req \<noteq> ''premium'' \<and> free_usage req \<ge> 10) \<longrightarrow>
           fst (generateArticle e req w) = Fail err
           \<and> fst (generateBlogTitle e req w) = Fail err))
   \<and> (text_to_image e = Inl err \<longrightarrow> failed_clean (generateImage e req w) w)
   \<and> (upload e = Inl err \<longrightarrow>
        failed_clean (generateImage e req w) w
        \<and> failed_clean (removeImageBackground e req w) w
        \<and> failed_clean (removeImageObject e req w) w)"
proof -
  have a: "failed_clean (generateArticle e req w) w
      \<and> failed_clean (generateBlogTitle e req w) w
      \<and> (\<not> (plan req \<noteq> ''premium'' \<and> free_usage req \<ge> 10) \<longrightarrow>
           fst (generateArticle e req w) = Fail err
           \<and> fst (generateBlogTitle e req w) = Fail err)"
    if "completion e = Inl err"
    using that by (simp add: failed_clean_def generateArticle_def generateBlogTitle_def)
  have b: "failed_clean (resumeReview e req w) w" if "completion e = Inl err"
    using that
    by (simp add: failed_clean_def resumeReview_def split: option.splits sum.splits)
  have c: "failed_clean (generateImage e req w) w" if "text_to_image e = Inl err"
    using that by (simp add: failed_clean_def generateImage_def Let_def)
  have d: "failed_clean (generateImage e req w) w" if "upload e = Inl err"
    using that by (simp add: failed_clean_def generateImage_def Let_def split: sum.splits)
  have f: "failed_clean (removeImageBackground e req w) w
      \<and> failed_clean (removeImageObject e req w) w" if "upload e = Inl err"
    using that
    by (simp add: failed_clean_def removeImageBackground_def removeImageObject_def
        split: option.splits)
  from a b c d f show ?thesis by blast
qed

theorem provider_failure_no_effects_witness:
  "failed_clean
     (generateArticle
        (env0\<lparr>completion := Inl ''503'', text_to_image := Inl ''503'', upload := Inl ''503''\<rparr>)
        req0 world1) world1
   \<and> fst (generateArticle
        (env0\<lparr>completion := Inl ''503'', text_to_image := Inl ''503'', upload := Inl ''503''\<rparr>)
        req0 world1) = Fail ''503''
   \<and> failed_clean
     (generateImage
        (env0\<lparr>completion := Inl ''503'', text_to_image := Inl ''503'', upload := Inl ''503''\<rparr>)
        (req0\<lparr>plan := ''premium''\<rparr>) world1) world1
   \<and> fst (generateImage
        (env0\<lparr>completion := Inl ''503'', text_to_image := Inl ''503'', upload := Inl ''503''\<rparr>)
        (req0\<lparr>plan := ''premium''\<rparr>) world1) = Fail ''503''"
  using provider_failure_no_effects
    [of "env0\<lparr>completion := Inl ''503'', text_to_image := Inl ''503'', upload := Inl ''503''\<rparr>"
        "''503''" req0 world1]
    provider_failure_no_effects
    [of "env0\<lparr>completion := Inl ''503'', text_to_image := Inl ''503'', upload := Inl ''503''\<rparr>"
        "''503''" "req0\<lparr>plan := ''premium''\<rparr>" world1]
  by (simp add: req0_def generateImage_def)

section \<open>No metering of premium requests\<close>

lemma serve_metadata:
  assumes "\<And>e w. metadata (snd (h e req w)) = metadata w"
  shows "metadata (snd (serve h req es w)) = metadata w"
proof (induction es arbitrary: w)
  case Nil
  then show ?case by simp
next
  case (Cons e es)
  obtain r w' where rw: "h e req w = (r, w')" by (cases "h e req w")
  then have "metadata w' = metadata w" using assms[of e w] by simp
  with Cons.IH[of w'] rw show ?case by (cases "serve h req es w'") simp
qed

lemma premium_article_metadata:
  "plan req = ''premium'' \<Longrightarrow> metadata (snd (generateArticle e req w)) = metadata w"
  by (simp add: generateArticle_def Let_def split: sum.splits list.splits option.splits)

lemma premium_blog_metadata:
  "plan req = ''premium'' \<Longrightarrow> metadata (snd (generateBlogTitle e req w)) = metadata w"
  by (simp add: generateBlogTitle_def Let_def split: sum.splits list.splits option.splits)

lemma premium_resume_metadata:
  "plan req = ''premium'' \<Longrightarrow> metadata (snd (resumeReview e req w)) = metadata w"
  by (simp add: resumeReview_def Let_def split: sum.splits list.splits option.splits)

lemma image_metadata:
  "metadata (snd (generateImage e req w)) = metadata w"
  "metadata (snd (removeImageBackground e req w)) = metadata w"
  "metadata (snd (removeImageObject e req w)) = metadata w"
  by (simp_all add: generateImage_def removeImageBackground_def removeImageObject_def Let_def
      split: sum.splits list.splits option.splits prod.splits)

text \<open>
  C7. A handler run on a premium request leaves the identity provider's metadata as it
  was, whether or not the generation succeeds; so does any number of such runs one
  after another. This holds for the three metered capabilities and for the three
  premium-only ones.
\<close>

theorem premium_never_metered:
  assumes "plan req = ''premium''"
  shows "metadata (snd (generateArticle e req w)) = metadata w
     \<and> metadata (snd (generateBlogTitle e req w)) = metadata w
     \<and> metadata (snd (resumeReview e req w)) = metadata w
     \<and> metadata (snd (generateImage e req w)) = metadata w
     \<and> metadata (snd (removeImageBackground e req w)) = metadata w
     \<and> metadata (snd (removeImageObject e req w)) = metadata w
     \<and> metadata (snd (serve generateArticle req es w)) = metadata w
     \<and> metadata (snd (serve generateBlogTitle req es w)) = metadata w
     \<and> metadata (snd (serve resumeReview req es w)) = metadata w"
  using assms
  by (simp add: premium_article_metadata premium_blog_metadata premium_resume_metadata
      image_metadata serve_metadata)

theorem premium_never_metered_witness:
  "fst (serve generateArticle (req0\<lparr>plan := ''premium''\<rparr>) [env0, env0, env0] world1)
     = [Content ''Hello there'', Content ''Hello there'', Content ''Hello there'']
   \<and> metadata (snd (serve generateArticle (req0\<lparr>plan := ''premium''\<rparr>) [env0, env0, env0] world1))
     = metadata world1
   \<and> fst (resumeReview env0
        (req0\<lparr>plan := ''premium'',
              req_file := Some \<lparr>file_size = 1000, file_path = ''/tmp/cv''\<rparr>\<rparr>) world1)
     = Content ''Hello there''
   \<and> metadata (snd (resumeReview env0
        (req0\<lparr>plan := ''premium'',
              req_file := Some \<lparr>file_size = 1000, file_path = ''/tmp/cv''\<rparr>\<rparr>) world1))
     = metadata world1"
  using premium_never_metered [of "req0\<lparr>plan := ''premium''\<rparr>" env0 world1 "[env0, env0, env0]"]
    premium_never_metered
      [of "req0\<lparr>plan := ''premium'',
                req_file := Some \<lparr>file_size = 1000, file_path = ''/tmp/cv''\<rparr>\<rparr>"
          env0 world1 "[]"]
  by (simp add: req0_def env0_def generateArticle_def resumeReview_def)

section \<open>The size limit of a resume\<close>

text \<open>
  C10. A resume-review request that passes the quota check with an uploaded file of
  more than 5 * 1024 * 1024 bytes is answered with the size-limit failure and leaves
  the world as it was: no request to a provider, no creation, no metadata write.
\<close>

theorem resume_size_limit:
  assumes "\<not> (plan req \<noteq> ''premium'' \<and> free_usage req \<ge> 10)"
    and "req_file req = Some resume" "file_size resume > 5 * 1024 * 1024"
  shows "resumeReview e req w = (Fail size_exceeded, w)"
  using assms by (auto simp add: resumeReview_def)

theorem resume_size_limit_witness:
  "resumeReview env0
     (req0\<lparr>req_file := Some \<lparr>file_size = 5242881, file_path = ''/tmp/cv''\<rparr>\<rparr>) world1
   = (Fail size_exceeded, world1)"
  using resume_size_limit
    [of "req0\<lparr>req_file := Some \<lparr>file_size = 5242881, file_path = ''/tmp/cv''\<rparr>\<rparr>"
        "\<lparr>file_size = 5242881, file_path = ''/tmp/cv''\<rparr>" env0 world1]
  by (simp add: req0_def)

section \<open>The like toggle\<close>

lemma split_on_not_Nil [simp]: "split_on sep s \<noteq> []"
  by (induction s) (auto split: list.splits)

lemma split_on_item: "sep \<notin> set s \<Longrightarrow> split_on sep s = [s]"
  by (induction s) auto

lemma split_on_append:
  "sep \<notin> set x \<Longrightarrow> split_on sep (x @ sep # rest) = x # split_on sep rest"
  by (induction x) (auto split: list.splits)

lemma split_on_join:
  "xs \<noteq> [] \<Longrightarrow> \<forall>x\<in>set xs. sep \<notin> set x \<Longrightarrow> split_on sep (join sep xs) = xs"
  by (induction sep xs rule: join.induct) (auto simp: split_on_item split_on_append)

lemma join_eq_Nil: "\<forall>x\<in>set xs. x \<noteq> [] \<Longrightarrow> (join sep xs = []) = (xs = [])"
  by (induction sep xs rule: join.induct) auto

lemma plain_item: "plain s \<Longrightarrow> CHR '','' \<notin> set s \<and> s \<noteq> []"
  by (auto simp: plain_def)

text \<open>What the handler writes as \<open>formattedArray\<close> is read back as the array it came from.\<close>

lemma text_array_in_formatted:
  "list_all plain xs \<Longrightarrow> text_array_in (''{'' @ join CHR '','' xs @ ''}'') = xs"
  using join_eq_Nil[of xs "CHR '',''"] split_on_join[of xs "CHR '',''"]
  by (auto simp: text_array_in_def list_all_iff plain_item butlast_append)

lemma updated_likes_plain:
  "list_all plain L \<Longrightarrow> plain u \<Longrightarrow> list_all plain (updated_likes u L)"
  by (auto simp: updated_likes_def list_all_iff)

lemma updated_likes_twice_set: "set (updated_likes u (updated_likes u L)) = set L"
  by (auto simp: updated_likes_def)

lemma updated_likes_twice_new: "u \<notin> set L \<Longrightarrow> updated_likes u (updated_likes u L) = L"
  by (auto simp: updated_likes_def filter_id_conv)

lemma updated_likes_member: "u \<notin> set L \<Longrightarrow> u \<in> set (updated_likes u L)"
  by (simp add: updated_likes_def)

lemma updated_likes_distinct: "distinct L \<Longrightarrow> distinct (updated_likes u L)"
  by (auto simp: updated_likes_def)

lemma toggleLikeCreation_found:
  assumes "select_error e = None" "update_error e = None"
    and "sql_select (body_id req) w = c # cs"
  shows "toggleLikeCreation e req w =
     (Message (if userId req \<in> set (likes c) then ''Creation disliked'' else ''Creation liked''),
      sql_update_likes (''{'' @ join CHR '','' (updated_likes (userId req) (likes c)) @ ''}'')
        (body_id req) w)"
  using assms by (simp add: toggleLikeCreation_def updated_likes_def)

lemma toggleLikeCreation_unchanged:
  "select_error e \<noteq> None \<or> update_error e \<noteq> None \<or> sql_select (body_id req) w = [] \<Longrightarrow>
   snd (toggleLikeCreation e req w) = w"
  by (auto simp: toggleLikeCreation_def Let_def split: option.splits list.splits prod.splits)

lemma sql_select_update:
  "sql_select i (sql_update_likes fa i w) =
     map (\<lambda>c. c\<lparr>likes := text_array_in fa\<rparr>) (sql_select i w)"
  by (simp add: sql_select_def sql_update_likes_def filter_map comp_def)

lemma likes_of_update:
  "likes_of i (sql_update_likes fa i w) =
     (case likes_of i w of None \<Rightarrow> None | Some L \<Rightarrow> Some (text_array_in fa))"
  by (simp add: likes_of_def sql_select_update split: list.splits)

lemma likes_of_toggle:
  assumes "select_error e = None" "update_error e = None"
    and "likes_of (body_id req) w = Some L" "list_all plain L" "plain (userId req)"
  shows "fst (toggleLikeCreation e req w) =
       Message (if userId req \<in> set L then ''Creation disliked'' else ''Creation liked'')"
    and "likes_of (body_id req) (snd (toggleLikeCreation e req w))
       = Some (updated_likes (userId req) L)"
proof -
  from assms(3) obtain c cs where sel: "sql_select (body_id req) w = c # cs" and L: "likes c = L"
    by (auto simp: likes_of_def split: list.splits)
  have pl: "list_all plain (updated_likes (userId req) L)"
    using assms(4,5) by (rule updated_likes_plain)
  show "fst (toggleLikeCreation e req w) =
       Message (if userId req \<in> set L then ''Creation disliked'' else ''Creation liked'')"
    using toggleLikeCreation_found[OF assms(1,2) sel] L by simp
  show "likes_of (body_id req) (snd (toggleLikeCreation e req w))
       = Some (updated_likes (userId req) L)"
    using toggleLikeCreation_found[OF assms(1,2) sel] L assms(3) text_array_in_formatted[OF pl]
    by (simp add: likes_of_update)
qed

lemma plain_user_1: "plain ''user_1''"
  by (simp add: plain_def is_null_word_def)

lemma plain_user_2: "plain ''user_2''"
  by (simp add: plain_def is_null_word_def)

lemma likes_of_world1: "likes_of 1 world1 = Some [''user_2'']"
  by (simp add: likes_of_def sql_select_def world1_def)

text \<open>
  C8. Take a creation that exists, with plain identifiers in its \<open>likes\<close>, and a caller
  with a plain identifier. Two toggles by that caller, one right after the other and
  both reaching the store, leave the creation with the same set of likes as before.
  When the caller was not a member, the first call reports ``liked'', the second
  ``disliked'', and the array of likes is back as it was, element for element; when
  the caller was a member, the reports are ``disliked'' then ``liked''.
\<close>

theorem toggle_twice_restores:
  assumes "select_error e1 = None" "update_error e1 = None"
    and "select_error e2 = None" "update_error e2 = None"
    and "likes_of (body_id req) w = Some L" "list_all plain L" "plain (userId req)"
  shows "map_option set
           (likes_of (body_id req)
              (snd (toggleLikeCreation e2 req (snd (toggleLikeCreation e1 req w)))))
         = Some (set L)
     \<and> (userId req \<notin> set L \<longrightarrow>
           fst (toggleLikeCreation e1 req w) = Message ''Creation liked''
         \<and> fst (toggleLikeCreation e2 req (snd (toggleLikeCreation e1 req w)))
             = Message ''Creation disliked''
         \<and> likes_of (body_id req)
              (snd (toggleLikeCreation e2 req (snd (toggleLikeCreation e1 req w)))) = Some L)
     \<and> (userId req \<in> set L \<longrightarrow>
           fst (toggleLikeCreation e1 req w) = Message ''Creation disliked''
         \<and> fst (toggleLikeCreation e2 req (snd (toggleLikeCreation e1 req w)))
             = Message ''Creation liked'')"
proof -
  let ?u = "userId req"
  let ?w1 = "snd (toggleLikeCreation e1 req w)"
  let ?w2 = "snd (toggleLikeCreation e2 req ?w1)"
  have r1: "fst (toggleLikeCreation e1 req w) =
       Message (if ?u \<in> set L then ''Creation disliked'' else ''Creation liked'')"
    and l1: "likes_of (body_id req) ?w1 = Some (updated_likes ?u L)"
    using likes_of_toggle[OF assms(1,2,5,6,7)] by simp_all
  have p1: "list_all plain (updated_likes ?u L)"
    using assms(6,7) by (rule updated_likes_plain)
  have r2: "fst (toggleLikeCreation e2 req ?w1) =
       Message (if ?u \<in> set (updated_likes ?u L) then ''Creation disliked''
                else ''Creation liked'')"
    and l2: "likes_of (body_id req) ?w2 = Some (updated_likes ?u (updated_likes ?u L))"
    using likes_of_toggle[OF assms(3,4) l1 p1 assms(7)] by simp_all
  have a: "map_option set (likes_of (body_id req) ?w2) = Some (set L)"
    using l2 by (simp add: updated_likes_twice_set)
  have b: "fst (toggleLikeCreation e1 req w) = Message ''Creation liked''
         \<and> fst (toggleLikeCreation e2 req ?w1) = Message ''Creation disliked''
         \<and> likes_of (body_id req) ?w2 = Some L" if "?u \<notin> set L"
    using that r1 r2 l2 by (simp add: updated_likes_twice_new updated_likes_member)
  have c: "fst (toggleLikeCreation e1 req w) = Message ''Creation disliked''
         \<and> fst (toggleLikeCreation e2 req ?w1) = Message ''Creation liked''" if "?u \<in> set L"
    using that r1 r2 by (simp add: updated_likes_def)
  from a b c show ?thesis by blast
qed

theorem toggle_twice_restores_witness:
  "fst (toggleLikeCreation env0 req0 world1) = Message ''Creation liked''
   \<and> fst (toggleLikeCreation env0 req0 (snd (toggleLikeCreation env0 req0 world1)))
       = Message ''Creation disliked''
   \<and> likes_of 1 (snd (toggleLikeCreation env0 req0 (snd (toggleLikeCreation env0 req0 world1))))
       = Some [''user_2'']"
proof -
  have e: "select_error env0 = None" "update_error env0 = None"
    by (simp_all add: env0_def)
  have r: "body_id req0 = 1" "userId req0 = ''user_1''"
    by (simp_all add: req0_def)
  have l: "likes_of (body_id req0) world1 = Some [''user_2'']"
    using likes_of_world1 r by simp
  have p: "list_all plain [''user_2'']" "plain (userId req0)"
    using plain_user_1 plain_user_2 r by simp_all
  from toggle_twice_restores [OF e e l p] r
  show ?thesis by simp
qed

text \<open>
  C9. Suppose the likes of every creation hold plain identifiers and the caller's
  identifier is plain. If before the call no identifier occurs twice in the likes of
  any creation, the same holds after the call, whatever the outcome of the store's
  calls. When the call reaches the store, the likes of the creation become the former
  likes with every occurrence of the caller removed (if the caller was a member) or
  with the caller appended once (if not).
\<close>

theorem toggle_keeps_at_most_once:
  assumes "\<forall>c\<in>set (creations w). list_all plain (likes c)" "plain (userId req)"
    and "\<forall>c\<in>set (creations w). distinct (likes c)"
  shows "(\<forall>c\<in>set (creations (snd (toggleLikeCreation e req w))). distinct (likes c))
     \<and> (select_error e = None \<and> update_error e = None
          \<and> likes_of (body_id req) w = Some L \<longrightarrow>
        likes_of (body_id req) (snd (toggleLikeCreation e req w))
          = Some (if userId req \<in> set L then filter (\<lambda>user. user \<noteq> userId req) L
                  else L @ [userId req]))"
proof -
  have inv: "\<forall>c\<in>set (creations (snd (toggleLikeCreation e req w))). distinct (likes c)"
  proof (cases "select_error e = None \<and> update_error e = None
                 \<and> sql_select (body_id req) w \<noteq> []")
    case False
    then have "snd (toggleLikeCreation e req w) = w"
      using toggleLikeCreation_unchanged[of e req w] by blast
    with assms(3) show ?thesis by simp
  next
    case True
    then obtain c0 cs where sel: "sql_select (body_id req) w = c0 # cs"
      by (cases "sql_select (body_id req) w") auto
    then have "c0 \<in> set (sql_select (body_id req) w)" by simp
    then have mem: "c0 \<in> set (creations w)" by (simp add: sql_select_def)
    have pl: "list_all plain (updated_likes (userId req) (likes c0))"
      using assms(1,2) mem by (simp add: updated_likes_plain)
    have d: "distinct (updated_likes (userId req) (likes c0))"
      using assms(3) mem by (simp add: updated_likes_distinct)
    have "snd (toggleLikeCreation e req w) =
        sql_update_likes
          (''{'' @ join CHR '','' (updated_likes (userId req) (likes c0)) @ ''}'')
          (body_id req) w"
      using toggleLikeCreation_found[OF _ _ sel] True by simp
    then show ?thesis
      using text_array_in_formatted[OF pl] d assms(3)
      by (auto simp: sql_update_likes_def)
  qed
  have upd: "likes_of (body_id req) (snd (toggleLikeCreation e req w))
          = Some (if userId req \<in> set L then filter (\<lambda>user. user \<noteq> userId req) L
                  else L @ [userId req])"
    if h: "select_error e = None" "update_error e = None" "likes_of (body_id req) w = Some L"
  proof -
    from h(3) obtain c0 cs where sel: "sql_select (body_id req) w = c0 # cs" and L: "likes c0 = L"
      by (auto simp: likes_of_def split: list.splits)
    then have "c0 \<in> set (sql_select (body_id req) w)" by simp
    then have "c0 \<in> set (creations w)" by (simp add: sql_select_def)
    with assms(1) L have "list_all plain L" by auto
    from likes_of_toggle(2)[OF h this assms(2)] show ?thesis
      by (simp add: updated_likes_def)
  qed
  from inv upd show ?thesis by blast
qed

theorem toggle_keeps_at_most_once_witness:
  "list_all (\<lambda>c. distinct (likes c))
     (creations (snd (toggleLikeCreation env0 (req0\<lparr>userId := ''user_2''\<rparr>) world1)))
   \<and> likes_of 1 (snd (toggleLikeCreation env0 (req0\<lparr>userId := ''user_2''\<rparr>) world1)) = Some []"
proof -
  have a: "\<forall>c\<in>set (creations world1). list_all plain (likes c)"
    using plain_user_2 by (simp add: world1_def)
  have b: "plain (userId (req0\<lparr>userId := ''user_2''\<rparr>))"
    using plain_user_2 by simp
  have c: "\<forall>c\<in>set (creations world1). distinct (likes c)"
    by (simp add: world1_def)
  have e: "select_error env0 = None \<and> update_error env0 = None
      \<and> likes_of (body_id (req0\<lparr>userId := ''user_2''\<rparr>)) world1 = Some [''user_2'']"
    using likes_of_world1 by (simp add: env0_def req0_def)
  have r: "body_id (req0\<lparr>userId := ''user_2''\<rparr>) = 1"
    by (simp add: req0_def)
  from toggle_keeps_at_most_once [OF a b c, of env0 "[''user_2'']"] e r
  show ?thesis by (simp add: list_all_iff)
qed

end
